theory Spec2Isabelle
  imports Complex_Main
begin

section \<open>Budget-versus-actual variance report (app.py)\<close>

text \<open>
  The program is one Streamlit script, run top to bottom on every upload. The embedding
  follows the script line by line: the uploaded sheet is a data frame (an ordered list of
  labelled columns), every pandas operation the script calls is a function on that list,
  an uncaught Python exception is the \<open>Inl\<close> of a sum, and the page that the script
  renders is the list of the widget calls it made, in order.

  Numbers are modelled as mathematical reals: float64 rounding, infinities and int64
  wrap-around are outside the model. A Python \<open>str\<close> is a list of characters
  with code points below 256.
\<close>

subsection \<open>Exceptions\<close>

datatype exn = AttributeError | TypeError | ValueError | KeyError

definition and_then :: "exn + 'a \<Rightarrow> ('a \<Rightarrow> exn + 'b) \<Rightarrow> exn + 'b" where
  "and_then r f = (case r of Inl e \<Rightarrow> Inl e | Inr x \<Rightarrow> f x)"

subsection \<open>Data frames\<close>

text \<open>
  A column label read from the header row is a \<open>str\<close> (\<open>HText\<close>) or some other
  object (a number or a date, \<open>HOther\<close>). A cell is a number, a text, or the missing
  value \<open>NaN\<close> (a blank cell).
\<close>

datatype header = HText string | HOther

datatype cell = Num real | Str string | NaN

type_synonym series = "cell list"

type_synonym raw_frame = "(header \<times> series) list"

type_synonym frame = "(string \<times> series) list"

definition columns :: "frame \<Rightarrow> string list" where
  "columns df = map fst df"

text \<open>\<open>str.strip()\<close>: drops the leading and trailing characters for which
  \<open>str.isspace()\<close> holds.\<close>

definition is_space :: "char \<Rightarrow> bool" where
  "is_space c = ((of_char c :: nat) \<in> {9, 10, 11, 12, 13, 28, 29, 30, 31, 32, 133, 160})"

definition strip :: "string \<Rightarrow> string" where
  "strip s = rev (dropWhile is_space (rev (dropWhile is_space s)))"

text \<open>Line 42, \<open>[c.strip() for c in df.columns]\<close>: a label that is not a \<open>str\<close>
  has no \<open>strip\<close> attribute.\<close>

fun strip_columns :: "header list \<Rightarrow> exn + string list" where
  "strip_columns [] = Inr []"
| "strip_columns (HText s # hs) = and_then (strip_columns hs) (\<lambda>cs. Inr (strip s # cs))"
| "strip_columns (HOther # hs) = Inl AttributeError"

text \<open>\<open>df[col]\<close>: a Series when one column carries the label, a DataFrame of all of
  them when several do, \<open>KeyError\<close> when none does.\<close>

datatype selection = Series series | DataFrame "series list"

definition labelled :: "frame \<Rightarrow> string \<Rightarrow> series list" where
  "labelled df col = map snd (filter (\<lambda>p. fst p = col) df)"

definition getitem :: "frame \<Rightarrow> string \<Rightarrow> exn + selection" where
  "getitem df col =
     (case labelled df col of
        [] \<Rightarrow> Inl KeyError
      | [s] \<Rightarrow> Inr (Series s)
      | s # t # ss \<Rightarrow> Inr (DataFrame (s # t # ss)))"

text \<open>\<open>df[col] = s\<close>: every column that carries the label is replaced; a new label
  is appended as the last column.\<close>

definition setitem :: "frame \<Rightarrow> string \<Rightarrow> series \<Rightarrow> frame" where
  "setitem df col s =
     (if col \<in> set (columns df)
      then map (\<lambda>p. if fst p = col then (col, s) else p) df
      else df @ [(col, s)])"

text \<open>An operation that needs a one-dimensional operand raises on a DataFrame.\<close>

fun series_of :: "exn + selection \<Rightarrow> exn + series" where
  "series_of (Inl e) = Inl e"
| "series_of (Inr (Series s)) = Inr s"
| "series_of (Inr (DataFrame ss)) = Inl ValueError"

subsection \<open>Numeric conversion (lines 50-51)\<close>

text \<open>
  \<open>pd.to_numeric(s, errors="coerce")\<close> keeps a number, parses a text and turns what
  it cannot parse into \<open>NaN\<close>; it raises \<open>TypeError\<close> on an argument that is not
  one-dimensional. The library's parser of numeric text is the parameter \<open>parse\<close>.
\<close>

fun coerce :: "(string \<Rightarrow> real option) \<Rightarrow> cell \<Rightarrow> cell" where
  "coerce parse (Num x) = Num x"
| "coerce parse (Str t) = (case parse t of Some x \<Rightarrow> Num x | None \<Rightarrow> NaN)"
| "coerce parse NaN = NaN"

text \<open>The specification's \<open>parseNumericOrDefault\<close>, default \<open>0\<close>: what it says
  a cell of \<open>Budget\<close> or \<open>Actual\<close> becomes.\<close>

fun parse_or_zero :: "(string \<Rightarrow> real option) \<Rightarrow> cell \<Rightarrow> real" where
  "parse_or_zero parse (Num x) = x"
| "parse_or_zero parse (Str t) = (case parse t of Some x \<Rightarrow> x | None \<Rightarrow> 0)"
| "parse_or_zero parse NaN = 0"

fun to_numeric :: "(string \<Rightarrow> real option) \<Rightarrow> selection \<Rightarrow> exn + series" where
  "to_numeric parse (Series s) = Inr (map (coerce parse) s)"
| "to_numeric parse (DataFrame ss) = Inl TypeError"

definition fillna :: "real \<Rightarrow> series \<Rightarrow> series" where
  "fillna v s = map (\<lambda>c. case c of NaN \<Rightarrow> Num v | _ \<Rightarrow> c) s"

fun convert_numeric :: "(string \<Rightarrow> real option) \<Rightarrow> string list \<Rightarrow> frame \<Rightarrow> exn + frame" where
  "convert_numeric parse [] df = Inr df"
| "convert_numeric parse (col # cols) df =
     and_then (getitem df col) (\<lambda>sel.
     and_then (to_numeric parse sel) (\<lambda>s.
     convert_numeric parse cols (setitem df col (fillna 0 s))))"

subsection \<open>Series arithmetic\<close>

text \<open>
  Arithmetic works on the float view of a Series (\<open>None\<close> is \<open>NaN\<close>, which every
  operation propagates); a text operand raises \<open>TypeError\<close>. A division by zero gives
  no real number: the script discards that entry (line 55), and the model writes
  \<open>None\<close> for it.
\<close>

fun float_of :: "cell \<Rightarrow> exn + real option" where
  "float_of (Num x) = Inr (Some x)"
| "float_of NaN = Inr None"
| "float_of (Str t) = Inl TypeError"

fun floats :: "series \<Rightarrow> exn + real option list" where
  "floats [] = Inr []"
| "floats (c # cs) =
     and_then (float_of c) (\<lambda>x. and_then (floats cs) (\<lambda>xs. Inr (x # xs)))"

fun of_float :: "real option \<Rightarrow> cell" where
  "of_float None = NaN"
| "of_float (Some x) = Num x"

fun fsub :: "real option \<Rightarrow> real option \<Rightarrow> real option" where
  "fsub (Some a) (Some b) = Some (a - b)"
| "fsub _ _ = None"

fun fdiv :: "real option \<Rightarrow> real option \<Rightarrow> real option" where
  "fdiv (Some a) (Some b) = (if b = 0 then None else Some (a / b))"
| "fdiv _ _ = None"

fun fmul :: "real option \<Rightarrow> real option \<Rightarrow> real option" where
  "fmul (Some a) (Some b) = Some (a * b)"
| "fmul _ _ = None"

definition series_sub :: "series \<Rightarrow> series \<Rightarrow> exn + series" where
  "series_sub xs ys =
     and_then (floats xs) (\<lambda>a. and_then (floats ys) (\<lambda>b.
       Inr (map of_float (map2 fsub a b))))"

definition series_div :: "series \<Rightarrow> series \<Rightarrow> exn + series" where
  "series_div xs ys =
     and_then (floats xs) (\<lambda>a. and_then (floats ys) (\<lambda>b.
       Inr (map of_float (map2 fdiv a b))))"

definition series_mul :: "series \<Rightarrow> real \<Rightarrow> exn + series" where
  "series_mul xs k =
     and_then (floats xs) (\<lambda>a. Inr (map of_float (map (\<lambda>x. fmul x (Some k)) a)))"

definition series_eq :: "series \<Rightarrow> real \<Rightarrow> bool list" where
  "series_eq xs k = map (\<lambda>c. c = Num k) xs"

definition np_where :: "bool list \<Rightarrow> cell \<Rightarrow> series \<Rightarrow> series" where
  "np_where cond v xs = map2 (\<lambda>c x. if c then v else x) cond xs"

text \<open>\<open>Series.sum()\<close> skips \<open>NaN\<close>.\<close>

definition series_sum :: "series \<Rightarrow> exn + real" where
  "series_sum xs =
     and_then (floats xs) (\<lambda>a.
       Inr (sum_list (map (\<lambda>x. case x of None \<Rightarrow> 0 | Some v \<Rightarrow> v) a)))"

subsection \<open>Variance columns (lines 54-55)\<close>

definition variance :: "frame \<Rightarrow> exn + frame" where
  "variance df =
     and_then (series_of (getitem df ''Actual'')) (\<lambda>a.
     and_then (series_of (getitem df ''Budget'')) (\<lambda>b.
     and_then (series_sub a b) (\<lambda>v.
     let df1 = setitem df ''Variance'' v in
     and_then (series_of (getitem df1 ''Budget'')) (\<lambda>b1.
     and_then (series_of (getitem df1 ''Variance'')) (\<lambda>v1.
     and_then (series_div v1 b1) (\<lambda>q.
     and_then (series_mul q 100) (\<lambda>pct.
       Inr (setitem df1 ''Variance %'' (np_where (series_eq b1 0) NaN pct)))))))))"

subsection \<open>KPI summary (lines 61-64)\<close>

record kpi =
  total_budget :: real
  total_actual :: real
  total_variance :: real
  total_var_pct :: real

definition kpi_summary :: "frame \<Rightarrow> exn + kpi" where
  "kpi_summary df =
     and_then (and_then (series_of (getitem df ''Budget'')) series_sum) (\<lambda>tb.
     and_then (and_then (series_of (getitem df ''Actual'')) series_sum) (\<lambda>ta.
     let tv = ta - tb in
       Inr \<lparr>total_budget = tb, total_actual = ta, total_variance = tv,
            total_var_pct = (if tb \<noteq> 0 then tv / tb * 100 else 0)\<rparr>))"

text \<open>Lines 50-55 together: the frame that the page displays and exports.\<close>

definition analysis :: "(string \<Rightarrow> real option) \<Rightarrow> frame \<Rightarrow> exn + frame" where
  "analysis parse df = and_then (convert_numeric parse [''Budget'', ''Actual''] df) variance"

subsection \<open>Schema check (lines 44-47)\<close>

definition required_cols :: "string list" where
  "required_cols = [''Category'', ''Budget'', ''Actual'']"

definition schema_ok :: "frame \<Rightarrow> bool" where
  "schema_ok df = list_all (\<lambda>col. col \<in> set (columns df)) required_cols"

subsection \<open>Insight request (lines 86-110)\<close>

text \<open>
  The prompt carries the three totals and a fixed instruction; how a float prints is
  outside the model. The remote service is a parameter of the run: given the key and the
  prompt it returns the text of the first choice (\<open>Inr\<close>) or raises an
  \<open>Exception\<close> with a message (\<open>Inl\<close>).
\<close>

datatype prompt = Prompt real real real

definition summary_text :: "kpi \<Rightarrow> prompt" where
  "summary_text k = Prompt (total_budget k) (total_actual k) (total_variance k)"

subsection \<open>Export (lines 113-121)\<close>

text \<open>\<open>df.to_excel(writer, index=False)\<close> writes one sheet: the header row of the
  column labels, then the columns' cells below it, and no index column.\<close>

record worksheet =
  header_row :: "string list"
  body :: "series list"

definition to_excel :: "frame \<Rightarrow> worksheet" where
  "to_excel df = \<lparr>header_row = columns df, body = map snd df\<rparr>"

subsection \<open>The script\<close>

text \<open>
  The inputs of one run: what \<open>pd.read_excel\<close> made of the upload (\<open>None\<close>: no
  file; \<open>Inl\<close>: it raised, with the message), the library's number parser, whether
  the \<open>groq\<close> import succeeded, the environment's key, and the remote service.
\<close>

record env =
  uploaded_file :: "(string + raw_frame) option"
  parse_number :: "string \<Rightarrow> real option"
  GROQ_AVAILABLE :: bool
  GROQ_API_KEY :: "string option"
  groq_chat :: "string \<Rightarrow> prompt \<Rightarrow> string + string"

text \<open>
  The page is the list of widget calls, each with its arguments (the emoji that prefix
  some captions are left out; a metric carries its numbers, not their formatting).
  \<open>st.stop()\<close> ends the list; an exception that nothing catches ends it with
  \<open>Uncaught\<close>.
\<close>

datatype event =
    Title string
  | Write string
  | Info string
  | Error string
  | Warning string
  | Subheader string
  | Dataframe frame
  | Metric string real "real option"
  | PlotlyChart frame string string
  | DownloadButton worksheet string string
  | Uncaught exn

definition missing_columns_msg :: string where
  "missing_columns_msg = ''File harus mengandung kolom: Category, Budget, Actual''"

definition groq_inactive_msg :: string where
  "groq_inactive_msg = ''Groq API tidak aktif. Tambahkan GROQ_API_KEY pada .env''"

definition preamble :: "event list" where
  "preamble =
     [Title ''Aplikasi Konsultan Usaha UMKM'',
      Write ''Analisis Keuangan, Variance, KPI, & Insight Otomatis'']"

definition metrics :: "kpi \<Rightarrow> event list" where
  "metrics k =
     [Metric ''Total Budget'' (total_budget k) None,
      Metric ''Total Actual'' (total_actual k) None,
      Metric ''Total Variance'' (total_variance k) (Some (total_var_pct k))]"

definition insight :: "env \<Rightarrow> kpi \<Rightarrow> event list" where
  "insight env k =
     (case GROQ_API_KEY env of
        None \<Rightarrow> [Warning groq_inactive_msg]
      | Some key \<Rightarrow>
          if \<not> GROQ_AVAILABLE env \<or> key = [] then [Warning groq_inactive_msg]
          else (case groq_chat env key (summary_text k) of
                  Inl e \<Rightarrow> [Error (''Error AI: '' @ e)]
                | Inr content \<Rightarrow> [Write content]))"

definition download :: "frame \<Rightarrow> event" where
  "download df =
     DownloadButton (to_excel df) ''umkm_analysis.xlsx''
       ''application/vnd.openxmlformats-officedocument.spreadsheetml.sheet''"

definition render :: "env \<Rightarrow> frame \<Rightarrow> event list" where
  "render env df =
     [Subheader ''Data & Variance'', Dataframe df] @
     (case kpi_summary df of
        Inl x \<Rightarrow> [Uncaught x]
      | Inr k \<Rightarrow>
          metrics k @
          [Subheader ''Visualisasi Variance'', PlotlyChart df ''Category'' ''Variance'',
           Subheader ''Insight Otomatis (AI)''] @
          insight env k @
          [download df])"

definition main :: "env \<Rightarrow> event list" where
  "main env =
     preamble @
     (case uploaded_file env of
        None \<Rightarrow> [Info ''Silakan upload file Excel Anda.'']
      | Some (Inl e) \<Rightarrow> [Error (''Gagal membaca Excel: '' @ e)]
      | Some (Inr raw) \<Rightarrow>
          (case strip_columns (map fst raw) of
             Inl x \<Rightarrow> [Uncaught x]
           | Inr cols \<Rightarrow>
               let df = zip cols (map snd raw) in
               if \<not> schema_ok df then [Error missing_columns_msg]
               else (case analysis (parse_number env) df of
                       Inl x \<Rightarrow> [Uncaught x]
                     | Inr df' \<Rightarrow> render env df')))"

subsection \<open>Closed form of line 55\<close>

text \<open>On numeric columns \<open>a\<close> (Actual) and \<open>b\<close> (Budget), line 55 computes this
  column (lemma \<open>pct_column\<close> below).\<close>

definition pct :: "real list \<Rightarrow> real list \<Rightarrow> series" where
  "pct a b = map2 (\<lambda>x y. if y = 0 then NaN else Num ((x - y) / y * 100)) a b"

section \<open>Properties of the model\<close>

lemma and_then_Inr [simp]: "and_then (Inr x) f = f x"
  by (simp add: and_then_def)

lemma and_then_Inl [simp]: "and_then (Inl e) f = Inl e"
  by (simp add: and_then_def)

lemma and_then_eq_Inr: "and_then r f = Inr y \<longleftrightarrow> (\<exists>x. r = Inr x \<and> f x = Inr y)"
  by (cases r) simp_all

lemma labelled_replace_other:
  "d \<noteq> c \<Longrightarrow> labelled (map (\<lambda>p. if fst p = c then (c, s) else p) df) d = labelled df d"
  by (induction df) (auto simp: labelled_def)

lemma labelled_replace_same:
  "labelled (map (\<lambda>p. if fst p = c then (c, s) else p) df) c = map (\<lambda>_. s) (labelled df c)"
  by (induction df) (auto simp: labelled_def)

lemma labelled_append: "labelled (df @ df') c = labelled df c @ labelled df' c"
  by (simp add: labelled_def)

lemma labelled_single: "labelled [(l, s)] c = (if l = c then [s] else [])"
  by (simp add: labelled_def)

lemma labelled_empty_iff: "labelled df c = [] \<longleftrightarrow> c \<notin> set (columns df)"
  by (induction df) (auto simp: labelled_def columns_def)

lemma labelled_setitem_other: "d \<noteq> c \<Longrightarrow> labelled (setitem df c s) d = labelled df d"
  by (simp add: setitem_def labelled_replace_other labelled_append labelled_single)

lemma labelled_setitem_same:
  "labelled (setitem df c s) c = (if labelled df c = [] then [s] else map (\<lambda>_. s) (labelled df c))"
  by (simp add: setitem_def labelled_replace_same labelled_append labelled_single
      labelled_empty_iff)

lemma set_labelled_setitem_same: "set (labelled (setitem df c s) c) = {s}"
  by (cases "labelled df c") (auto simp: labelled_setitem_same)

lemma labelled_mem: "s \<in> set (labelled df c) \<longleftrightarrow> (c, s) \<in> set df"
  by (force simp: labelled_def)

lemma getitem_Series_iff: "getitem df c = Inr (Series s) \<longleftrightarrow> labelled df c = [s]"
  by (simp add: getitem_def split: list.splits)

lemma series_of_getitem_iff: "series_of (getitem df c) = Inr s \<longleftrightarrow> labelled df c = [s]"
  by (simp add: getitem_def split: list.splits)

lemma to_numeric_eq_Inr: "to_numeric p sel = Inr s \<longleftrightarrow> (\<exists>x. sel = Series x \<and> s = map (coerce p) x)"
  by (cases sel) auto

lemma fillna_coerce: "fillna 0 (map (coerce p) s) = map Num (map (parse_or_zero p) s)"
proof -
  have "(case coerce p c of NaN \<Rightarrow> Num 0 | _ \<Rightarrow> coerce p c) = Num (parse_or_zero p c)" for c
    by (cases c) (simp_all split: option.splits)
  then show ?thesis
    by (simp add: fillna_def)
qed

lemma convert_numeric_iff:
  "convert_numeric p [''Budget'', ''Actual''] df = Inr out \<longleftrightarrow>
     (\<exists>sb sa. labelled df ''Budget'' = [sb] \<and> labelled df ''Actual'' = [sa] \<and>
        out = setitem (setitem df ''Budget'' (map Num (map (parse_or_zero p) sb)))
                ''Actual'' (map Num (map (parse_or_zero p) sa)))"
proof
  assume "convert_numeric p [''Budget'', ''Actual''] df = Inr out"
  then show "\<exists>sb sa. labelled df ''Budget'' = [sb] \<and> labelled df ''Actual'' = [sa] \<and>
        out = setitem (setitem df ''Budget'' (map Num (map (parse_or_zero p) sb)))
                ''Actual'' (map Num (map (parse_or_zero p) sa))"
    by (auto simp: and_then_eq_Inr to_numeric_eq_Inr getitem_Series_iff fillna_coerce
        labelled_setitem_other)
next
  assume "\<exists>sb sa. labelled df ''Budget'' = [sb] \<and> labelled df ''Actual'' = [sa] \<and>
        out = setitem (setitem df ''Budget'' (map Num (map (parse_or_zero p) sb)))
                ''Actual'' (map Num (map (parse_or_zero p) sa))"
  then obtain sb sa where sb: "labelled df ''Budget'' = [sb]" and sa: "labelled df ''Actual'' = [sa]"
    and out: "out = setitem (setitem df ''Budget'' (map Num (map (parse_or_zero p) sb)))
                ''Actual'' (map Num (map (parse_or_zero p) sa))"
    by blast
  have g1: "getitem df ''Budget'' = Inr (Series sb)"
    using sb by (simp add: getitem_Series_iff)
  have "labelled (setitem df ''Budget'' (fillna 0 (map (coerce p) sb))) ''Actual'' = [sa]"
    using sa by (simp add: labelled_setitem_other)
  then have g2: "getitem (setitem df ''Budget'' (fillna 0 (map (coerce p) sb))) ''Actual''
      = Inr (Series sa)"
    by (simp add: getitem_Series_iff)
  show "convert_numeric p [''Budget'', ''Actual''] df = Inr out"
    using g2 by (simp add: g1 out fillna_coerce)
qed

lemma floats_Num: "floats (map Num xs) = Inr (map Some xs)"
  by (induction xs) simp_all

lemma floats_of_float: "floats (map of_float xs) = Inr xs"
proof (induction xs)
  case Nil
  then show ?case by simp
next
  case (Cons x xs)
  then show ?case by (cases x) simp_all
qed

lemma series_sub_Num: "series_sub (map Num a) (map Num b) = Inr (map Num (map2 (-) a b))"
proof -
  have "map of_float (map2 fsub (map Some a) (map Some b)) = map Num (map2 (-) a b)"
  proof (induction a arbitrary: b)
    case Nil
    then show ?case by simp
  next
    case (Cons x a)
    then show ?case by (cases b) simp_all
  qed
  then show ?thesis
    by (simp add: series_sub_def floats_Num)
qed

lemma pct_column:
  "np_where (series_eq (map Num b) 0) NaN
     (map of_float (map (\<lambda>x. fmul x (Some k)) (map2 fdiv (map Some (map2 (-) a b)) (map Some b))))
   = map2 (\<lambda>x y. if y = 0 then NaN else Num ((x - y) / y * k)) a b"
proof (induction a arbitrary: b)
  case Nil
  then show ?case by (simp add: np_where_def series_eq_def)
next
  case (Cons x a)
  show ?case
  proof (cases b)
    case Nil
    then show ?thesis by (simp add: np_where_def series_eq_def)
  next
    case (Cons y b')
    with Cons.IH [of b'] show ?thesis
      by (simp add: np_where_def series_eq_def)
  qed
qed

lemma series_div_Num:
  "series_div (map Num v) (map Num b) = Inr (map of_float (map2 fdiv (map Some v) (map Some b)))"
  by (simp add: series_div_def floats_Num)

lemma series_mul_of_float:
  "series_mul (map of_float q) k = Inr (map of_float (map (\<lambda>x. fmul x (Some k)) q))"
  by (simp add: series_mul_def floats_of_float)


lemma variance_Num:
  assumes "labelled df ''Actual'' = [map Num a]" "labelled df ''Budget'' = [map Num b]"
  shows "variance df =
           (if length (labelled df ''Variance'') \<le> 1
            then Inr (setitem (setitem df ''Variance'' (map Num (map2 (-) a b))) ''Variance %'' (pct a b))
            else Inl ValueError)"
proof -
  let ?v = "map Num (map2 (-) a b)"
  let ?df1 = "setitem df ''Variance'' ?v"
  have ga: "getitem df ''Actual'' = Inr (Series (map Num a))"
    and gb: "getitem df ''Budget'' = Inr (Series (map Num b))"
    using assms by (simp_all add: getitem_Series_iff)
  have "labelled ?df1 ''Budget'' = [map Num b]"
    using assms by (simp add: labelled_setitem_other)
  then have gb1: "getitem ?df1 ''Budget'' = Inr (Series (map Num b))"
    by (simp add: getitem_Series_iff)
  show ?thesis
  proof (cases "length (labelled df ''Variance'') \<le> 1")
    case True
    then have "labelled ?df1 ''Variance'' = [?v]"
      by (cases "labelled df ''Variance''") (simp_all add: labelled_setitem_same)
    then have gv: "getitem ?df1 ''Variance'' = Inr (Series ?v)"
      by (simp add: getitem_Series_iff)
    show ?thesis
      unfolding variance_def ga gb series_of.simps and_then_Inr series_sub_Num Let_def gb1 gv
        series_div_Num series_mul_of_float pct_column pct_def
      using True by simp
  next
    case False
    then obtain s t ss where "labelled df ''Variance'' = s # t # ss"
      by (cases "labelled df ''Variance''"; cases "tl (labelled df ''Variance'')") auto
    then have "labelled ?df1 ''Variance'' = ?v # ?v # map (\<lambda>_. ?v) ss"
      by (simp add: labelled_setitem_same)
    then have gv: "series_of (getitem ?df1 ''Variance'') = Inl ValueError"
      by (simp add: getitem_def)
    show ?thesis
      unfolding variance_def ga gb series_of.simps and_then_Inr series_sub_Num Let_def gb1 gv
      using False by simp
  qed
qed



lemma getitem_setitem_other: "d \<noteq> c \<Longrightarrow> getitem (setitem df c s) d = getitem df d"
  by (simp add: getitem_def labelled_setitem_other)

lemma analysis_cases:
  assumes "analysis p df = Inr out"
  obtains sb sa where
    "labelled df ''Budget'' = [sb]" "labelled df ''Actual'' = [sa]"
    "length (labelled df ''Variance'') \<le> 1"
    "out = setitem (setitem (setitem (setitem df
             ''Budget'' (map Num (map (parse_or_zero p) sb)))
             ''Actual'' (map Num (map (parse_or_zero p) sa)))
             ''Variance'' (map Num (map2 (-) (map (parse_or_zero p) sa) (map (parse_or_zero p) sb))))
             ''Variance %'' (pct (map (parse_or_zero p) sa) (map (parse_or_zero p) sb))"
proof -
  from assms obtain df2 where c: "convert_numeric p [''Budget'', ''Actual''] df = Inr df2"
    and v: "variance df2 = Inr out"
    by (auto simp: analysis_def and_then_eq_Inr)
  from c obtain sb sa where sb: "labelled df ''Budget'' = [sb]" and sa: "labelled df ''Actual'' = [sa]"
    and df2: "df2 = setitem (setitem df ''Budget'' (map Num (map (parse_or_zero p) sb)))
                ''Actual'' (map Num (map (parse_or_zero p) sa))"
    unfolding convert_numeric_iff by blast
  have a2: "labelled df2 ''Actual'' = [map Num (map (parse_or_zero p) sa)]"
    using sa by (simp add: df2 labelled_setitem_same labelled_setitem_other)
  have b2: "labelled df2 ''Budget'' = [map Num (map (parse_or_zero p) sb)]"
    using sb by (simp add: df2 labelled_setitem_same labelled_setitem_other)
  have v2: "labelled df2 ''Variance'' = labelled df ''Variance''"
    by (simp add: df2 labelled_setitem_other)
  from v have "length (labelled df ''Variance'') \<le> 1 \<and>
     out = setitem (setitem df2 ''Variance''
             (map Num (map2 (-) (map (parse_or_zero p) sa) (map (parse_or_zero p) sb))))
             ''Variance %'' (pct (map (parse_or_zero p) sa) (map (parse_or_zero p) sb))"
    unfolding variance_Num [OF a2 b2] v2 by (auto split: if_splits)
  with sb sa df2 that show thesis
    by blast
qed

lemma analysis_columns:
  assumes "analysis p df = Inr out"
  obtains a b where
    "labelled out ''Actual'' = [map Num a]" "labelled out ''Budget'' = [map Num b]"
    "labelled out ''Variance'' = [map Num (map2 (-) a b)]"
    "set (labelled out ''Variance %'') = {pct a b}"
proof -
  from assms obtain sb sa where sb: "labelled df ''Budget'' = [sb]"
    and sa: "labelled df ''Actual'' = [sa]"
    and v: "length (labelled df ''Variance'') \<le> 1"
    and out: "out = setitem (setitem (setitem (setitem df
             ''Budget'' (map Num (map (parse_or_zero p) sb)))
             ''Actual'' (map Num (map (parse_or_zero p) sa)))
             ''Variance'' (map Num (map2 (-) (map (parse_or_zero p) sa) (map (parse_or_zero p) sb))))
             ''Variance %'' (pct (map (parse_or_zero p) sa) (map (parse_or_zero p) sb))"
    by (rule analysis_cases)
  let ?a = "map (parse_or_zero p) sa" and ?b = "map (parse_or_zero p) sb"
  have 1: "labelled out ''Actual'' = [map Num ?a]"
    using sa by (simp add: out labelled_setitem_same labelled_setitem_other)
  have 2: "labelled out ''Budget'' = [map Num ?b]"
    using sb by (simp add: out labelled_setitem_same labelled_setitem_other)
  have 3: "labelled out ''Variance'' = [map Num (map2 (-) ?a ?b)]"
    using v by (cases "labelled df ''Variance''")
      (simp_all add: out labelled_setitem_same labelled_setitem_other)
  have 4: "set (labelled out ''Variance %'') = {pct ?a ?b}"
    unfolding out by (rule set_labelled_setitem_same)
  from 1 2 3 4 that show thesis
    by blast
qed





lemma getitem_single: "labelled df c = [s] \<Longrightarrow> getitem df c = Inr (Series s)"
  by (simp add: getitem_Series_iff)

lemma length_setitem: "length df \<le> length (setitem df c s)"
  by (simp add: setitem_def)

lemma setitem_nth_fst: "i < length df \<Longrightarrow> fst (setitem df c s ! i) = fst (df ! i)"
  by (simp add: setitem_def nth_append)

lemma setitem_nth_other: "i < length df \<Longrightarrow> fst (df ! i) \<noteq> c \<Longrightarrow> setitem df c s ! i = df ! i"
  by (simp add: setitem_def nth_append)

lemma columns_setitem:
  "columns (setitem df c s) = columns df @ (if c \<in> set (columns df) then [] else [c])"
proof -
  have "map fst (map (\<lambda>p. if fst p = c then (c, s) else p) df) = map fst df"
    by (induction df) simp_all
  then show ?thesis
    by (simp add: setitem_def columns_def)
qed

lemma strip_columns_length: "strip_columns hs = Inr cols \<Longrightarrow> length cols = length hs"
proof (induction hs arbitrary: cols)
  case Nil
  then show ?case by simp
next
  case (Cons h hs)
  then show ?case
    by (cases h) (auto simp: and_then_eq_Inr)
qed

lemma strip_columns_text: "strip_columns (map HText hs) = Inr (map strip hs)"
  by (induction hs) simp_all

lemma columns_zip: "length cols = length ss \<Longrightarrow> columns (zip cols ss) = cols"
  by (simp add: columns_def)

lemma schema_ok_iff: "schema_ok df \<longleftrightarrow> set required_cols \<subseteq> set (columns df)"
  by (auto simp: schema_ok_def list_all_iff)

lemma main_uploaded:
  assumes "uploaded_file env = Some (Inr raw)" and "strip_columns (map fst raw) = Inr cols"
  shows "main env = preamble @
           (if \<not> schema_ok (zip cols (map snd raw)) then [Error missing_columns_msg]
            else (case analysis (parse_number env) (zip cols (map snd raw)) of
                    Inl x \<Rightarrow> [Uncaught x]
                  | Inr df' \<Rightarrow> render env df'))"
  using assms by (simp add: main_def Let_def)



lemma render_not_error: "render env df \<noteq> [Error m]"
  by (simp add: render_def)

lemma setitem_keeps:
  assumes "i < length df" and "fst (df ! i) \<noteq> c"
  shows "i < length (setitem df c s) \<and> setitem df c s ! i = df ! i"
  using assms by (simp add: setitem_def nth_append)

lemma setitem_keeps_label:
  assumes "i < length df"
  shows "i < length (setitem df c s) \<and> fst (setitem df c s ! i) = fst (df ! i)"
  using assms by (simp add: setitem_def nth_append)

lemma columns_setitem_present:
  "labelled df c = [x] \<Longrightarrow> columns (setitem df c s) = columns df"
proof -
  assume "labelled df c = [x]"
  then have "labelled df c \<noteq> []"
    by simp
  then have "c \<in> set (columns df)"
    by (simp add: labelled_empty_iff)
  then show ?thesis
    by (simp add: columns_setitem)
qed

lemma analysis_keeps_labels:
  assumes "analysis p df = Inr out" and "i < length df"
  shows "i < length out \<and> fst (out ! i) = fst (df ! i)"
proof -
  from assms(1) obtain sb sa where
    out: "out = setitem (setitem (setitem (setitem df
             ''Budget'' (map Num (map (parse_or_zero p) sb)))
             ''Actual'' (map Num (map (parse_or_zero p) sa)))
             ''Variance'' (map Num (map2 (-) (map (parse_or_zero p) sa) (map (parse_or_zero p) sb))))
             ''Variance %'' (pct (map (parse_or_zero p) sa) (map (parse_or_zero p) sb))"
    by (rule analysis_cases)
  let ?d1 = "setitem df ''Budget'' (map Num (map (parse_or_zero p) sb))"
  let ?d2 = "setitem ?d1 ''Actual'' (map Num (map (parse_or_zero p) sa))"
  let ?d3 = "setitem ?d2 ''Variance''
               (map Num (map2 (-) (map (parse_or_zero p) sa) (map (parse_or_zero p) sb)))"
  have 1: "i < length ?d1 \<and> fst (?d1 ! i) = fst (df ! i)"
    using assms(2) by (rule setitem_keeps_label)
  then have 2: "i < length ?d2 \<and> fst (?d2 ! i) = fst (df ! i)"
    using setitem_keeps_label [of i ?d1] by simp
  then have 3: "i < length ?d3 \<and> fst (?d3 ! i) = fst (df ! i)"
    using setitem_keeps_label [of i ?d2] by simp
  then show ?thesis
    unfolding out using setitem_keeps_label [of i ?d3] by simp
qed

lemma analysis_keeps_others:
  assumes "analysis p df = Inr out" and "i < length df"
    and "fst (df ! i) \<notin> {''Budget'', ''Actual'', ''Variance'', ''Variance %''}"
  shows "out ! i = df ! i"
proof -
  from assms(1) obtain sb sa where
    out: "out = setitem (setitem (setitem (setitem df
             ''Budget'' (map Num (map (parse_or_zero p) sb)))
             ''Actual'' (map Num (map (parse_or_zero p) sa)))
             ''Variance'' (map Num (map2 (-) (map (parse_or_zero p) sa) (map (parse_or_zero p) sb))))
             ''Variance %'' (pct (map (parse_or_zero p) sa) (map (parse_or_zero p) sb))"
    by (rule analysis_cases)
  let ?d1 = "setitem df ''Budget'' (map Num (map (parse_or_zero p) sb))"
  let ?d2 = "setitem ?d1 ''Actual'' (map Num (map (parse_or_zero p) sa))"
  let ?d3 = "setitem ?d2 ''Variance''
               (map Num (map2 (-) (map (parse_or_zero p) sa) (map (parse_or_zero p) sb)))"
  from assms(3) have n: "fst (df ! i) \<noteq> ''Budget''" "fst (df ! i) \<noteq> ''Actual''"
    "fst (df ! i) \<noteq> ''Variance''" "fst (df ! i) \<noteq> ''Variance %''"
    by simp_all
  have 1: "i < length ?d1 \<and> ?d1 ! i = df ! i"
    using assms(2) n(1) by (rule setitem_keeps)
  then have 2: "i < length ?d2 \<and> ?d2 ! i = df ! i"
    using setitem_keeps [of i ?d1 "''Actual''"] n(2) by simp
  then have 3: "i < length ?d3 \<and> ?d3 ! i = df ! i"
    using setitem_keeps [of i ?d2 "''Variance''"] n(3) by simp
  then show ?thesis
    unfolding out using setitem_keeps [of i ?d3 "''Variance %''"] n(4) by simp
qed

lemma analysis_column_order:
  assumes "analysis p df = Inr out"
  shows "columns out =
           columns df @ (if ''Variance'' \<in> set (columns df) then [] else [''Variance'']) @
           (if ''Variance %'' \<in> set (columns df) then [] else [''Variance %''])"
proof -
  from assms(1) obtain sb sa where sb: "labelled df ''Budget'' = [sb]"
    and sa: "labelled df ''Actual'' = [sa]"
    and out: "out = setitem (setitem (setitem (setitem df
             ''Budget'' (map Num (map (parse_or_zero p) sb)))
             ''Actual'' (map Num (map (parse_or_zero p) sa)))
             ''Variance'' (map Num (map2 (-) (map (parse_or_zero p) sa) (map (parse_or_zero p) sb))))
             ''Variance %'' (pct (map (parse_or_zero p) sa) (map (parse_or_zero p) sb))"
    by (rule analysis_cases)
  let ?d1 = "setitem df ''Budget'' (map Num (map (parse_or_zero p) sb))"
  let ?d2 = "setitem ?d1 ''Actual'' (map Num (map (parse_or_zero p) sa))"
  have 1: "columns ?d1 = columns df"
    using sb by (rule columns_setitem_present)
  have "labelled ?d1 ''Actual'' = [sa]"
    using sa by (simp add: labelled_setitem_other)
  then have "columns ?d2 = columns ?d1"
    by (rule columns_setitem_present)
  with 1 have 2: "columns ?d2 = columns df"
    by simp
  let ?d3 = "setitem ?d2 ''Variance''
               (map Num (map2 (-) (map (parse_or_zero p) sa) (map (parse_or_zero p) sb)))"
  have 3: "columns ?d3 =
      columns df @ (if ''Variance'' \<in> set (columns df) then [] else [''Variance''])"
    by (simp only: columns_setitem [of ?d2] 2)
  have 4: "columns out =
      columns ?d3 @ (if ''Variance %'' \<in> set (columns ?d3) then [] else [''Variance %''])"
    unfolding out by (rule columns_setitem)
  show ?thesis
    unfolding 4 3 by simp
qed

lemma main_download:
  assumes "uploaded_file env = Some (Inr raw)" and "DownloadButton w f m \<in> set (main env)"
  obtains cols out where "strip_columns (map fst raw) = Inr cols"
    "analysis (parse_number env) (zip cols (map snd raw)) = Inr out"
    "w = to_excel out" "Dataframe out \<in> set (main env)"
proof (cases "strip_columns (map fst raw)")
  case (Inl x)
  then have "main env = preamble @ [Uncaught x]"
    by (simp add: main_def assms(1))
  with assms(2) show thesis
    by (simp add: preamble_def)
next
  case (Inr cols)
  note m = main_uploaded [OF assms(1) Inr]
  show thesis
  proof (cases "analysis (parse_number env) (zip cols (map snd raw))")
    case (Inl x)
    with assms(2) show thesis
      by (simp add: m preamble_def split: if_splits)
  next
    case an: (Inr out)
    from assms(2) have r: "DownloadButton w f m \<in> set (render env out)"
      "main env = preamble @ render env out"
      by (simp_all add: m an preamble_def split: if_splits)
    from r(1) have "w = to_excel out"
      by (cases "kpi_summary out")
        (auto simp: render_def metrics_def download_def insight_def
          split: option.splits sum.splits if_splits)
    moreover have "Dataframe out \<in> set (main env)"
      by (simp add: r(2) render_def)
    ultimately show thesis
      using that Inr an by blast
  qed
qed

text \<open>
  Two inputs on which the script stops with an exception that nothing catches: two
  headers that trim to the same required name (line 51 gets a DataFrame), and a header
  that is not a \<open>str\<close> (line 42).
\<close>

lemma duplicate_label_raises:
  "convert_numeric parse [''Budget'', ''Actual'']
     [(''Category'', c), (''Budget'', s), (''Budget'', t), (''Actual'', u)] = Inl TypeError"
  by (simp add: getitem_def labelled_def)

lemma nontext_header_raises:
  "uploaded_file env = Some (Inr ((HOther, s) # raw)) \<Longrightarrow> main env = preamble @ [Uncaught AttributeError]"
  by (simp add: main_def)

section \<open>Claims\<close>









text \<open>
  Claim C5. For every uploaded table whose whitespace-trimmed column set lacks any of
  Category, Budget or Actual, the program reports a schema failure naming the required
  set and produces no further output: the page is the title, the caption and the error
  message, and the script stops there, so normalization, variance computation, table,
  metrics, chart, insight request and export never run.
\<close>

theorem schema_failure_halts:
  assumes "uploaded_file env = Some (Inr raw)"
    and "strip_columns (map fst raw) = Inr cols"
    and "\<not> set required_cols \<subseteq> set cols"
  shows "main env =
           [Title ''Aplikasi Konsultan Usaha UMKM'',
            Write ''Analisis Keuangan, Variance, KPI, & Insight Otomatis'',
            Error ''File harus mengandung kolom: Category, Budget, Actual'']"
proof -
  have "length cols = length (map snd raw)"
    using assms(2) by (simp add: strip_columns_length [of "map fst raw"])
  then have "columns (zip cols (map snd raw)) = cols"
    by (rule columns_zip)
  with assms(3) have "\<not> schema_ok (zip cols (map snd raw))"
    by (simp add: schema_ok_iff)
  then show ?thesis
    by (simp add: main_uploaded [OF assms(1,2)] preamble_def missing_columns_msg_def)
qed

text \<open>A sheet with the columns Category and Budget only.\<close>

theorem schema_failure_halts_witness:
  "strip_columns (map fst [(HText ''Category'', [Str ''Rent'']), (HText ''Budget'', [Num 1000])])
     = Inr [''Category'', ''Budget''] \<and>
   \<not> set required_cols \<subseteq> set [''Category'', ''Budget''] \<and>
   main \<lparr>uploaded_file = Some (Inr [(HText ''Category'', [Str ''Rent'']), (HText ''Budget'', [Num 1000])]), parse_number = Map.empty,
        GROQ_AVAILABLE = True, GROQ_API_KEY = None,
        groq_chat = (\<lambda>key p. Inl ''timeout'')\<rparr>
     = [Title ''Aplikasi Konsultan Usaha UMKM'',
        Write ''Analisis Keuangan, Variance, KPI, & Insight Otomatis'',
        Error ''File harus mengandung kolom: Category, Budget, Actual'']"
proof -
  have u: "uploaded_file \<lparr>uploaded_file = Some (Inr [(HText ''Category'', [Str ''Rent'']), (HText ''Budget'', [Num 1000])]), parse_number = Map.empty,
        GROQ_AVAILABLE = True, GROQ_API_KEY = None,
        groq_chat = (\<lambda>key p. Inl ''timeout'')\<rparr>
     = Some (Inr [(HText ''Category'', [Str ''Rent'']), (HText ''Budget'', [Num 1000])])"
    by simp
  have s: "strip_columns (map fst [(HText ''Category'', [Str ''Rent'']), (HText ''Budget'', [Num 1000])])
     = Inr [''Category'', ''Budget'']"
    by (simp add: strip_def is_space_def)
  have r: "\<not> set required_cols \<subseteq> set [''Category'', ''Budget'']"
    by (simp add: required_cols_def)
  show ?thesis
    using s r schema_failure_halts [OF u s r] by (intro conjI)
qed

text \<open>
  Claim C9. Required-column matching is exact and case-sensitive apart from whitespace
  trimming: on a sheet whose headers are texts, the fatal schema failure is reported
  exactly when some required name is not equal, character by character, to the trimmed
  form of any header. So \<open>budget\<close> or \<open>ACTUAL\<close> does not satisfy the check, while a
  header that only carries leading or trailing whitespace does.
\<close>

theorem schema_match_exact_after_trim:
  assumes "uploaded_file env = Some (Inr raw)"
    and "map fst raw = map HText hs"
  shows "(main env = preamble @ [Error missing_columns_msg]) \<longleftrightarrow>
           \<not> (\<forall>r\<in>set required_cols. \<exists>h\<in>set hs. strip h = r)"
proof -
  have s: "strip_columns (map fst raw) = Inr (map strip hs)"
    by (simp add: assms(2) strip_columns_text)
  have "length hs = length raw"
    using assms(2) by (metis length_map)
  then have "columns (zip (map strip hs) (map snd raw)) = map strip hs"
    by (simp add: columns_zip)
  then have ok: "schema_ok (zip (map strip hs) (map snd raw)) \<longleftrightarrow>
      (\<forall>r\<in>set required_cols. \<exists>h\<in>set hs. strip h = r)"
    by (auto simp: schema_ok_iff)
  show ?thesis
  proof (cases "schema_ok (zip (map strip hs) (map snd raw))")
    case True
    then have "main env \<noteq> preamble @ [Error missing_columns_msg]"
      by (simp add: main_uploaded [OF assms(1) s] render_not_error split: sum.splits)
    with True ok show ?thesis
      by simp
  next
    case False
    then have "main env = preamble @ [Error missing_columns_msg]"
      by (simp add: main_uploaded [OF assms(1) s])
    with False ok show ?thesis
      by simp
  qed
qed

text \<open>Three sheets: a header \<open>budget\<close> and a header \<open>ACTUAL\<close> each cause the
  schema failure; a header \<open>Budget\<close> between two blanks does not.\<close>

theorem schema_match_exact_after_trim_witness:
  "main \<lparr>uploaded_file = Some (Inr [(HText ''Category'', [Str ''Rent'']), (HText ''budget'', [Num 1000]),
         (HText ''Actual'', [Num 1200])]), parse_number = Map.empty,
        GROQ_AVAILABLE = True, GROQ_API_KEY = None,
        groq_chat = (\<lambda>key p. Inl ''timeout'')\<rparr>
     = preamble @ [Error missing_columns_msg] \<and>
   main \<lparr>uploaded_file = Some (Inr [(HText ''Category'', [Str ''Rent'']), (HText ''Budget'', [Num 1000]),
         (HText ''ACTUAL'', [Num 1200])]), parse_number = Map.empty,
        GROQ_AVAILABLE = True, GROQ_API_KEY = None,
        groq_chat = (\<lambda>key p. Inl ''timeout'')\<rparr>
     = preamble @ [Error missing_columns_msg] \<and>
   main \<lparr>uploaded_file = Some (Inr [(HText ''Category'', [Str ''Rent'']), (HText '' Budget '', [Num 1000]),
         (HText ''Actual'', [Num 1200])]), parse_number = Map.empty,
        GROQ_AVAILABLE = True, GROQ_API_KEY = None,
        groq_chat = (\<lambda>key p. Inl ''timeout'')\<rparr>
     \<noteq> preamble @ [Error missing_columns_msg]"
  using
    schema_match_exact_after_trim [of "\<lparr>uploaded_file = Some (Inr [(HText ''Category'', [Str ''Rent'']), (HText ''budget'', [Num 1000]),
         (HText ''Actual'', [Num 1200])]), parse_number = Map.empty,
        GROQ_AVAILABLE = True, GROQ_API_KEY = None,
        groq_chat = (\<lambda>key p. Inl ''timeout'')\<rparr>"
      "[(HText ''Category'', [Str ''Rent'']), (HText ''budget'', [Num 1000]),
         (HText ''Actual'', [Num 1200])]" "[''Category'', ''budget'', ''Actual'']"]
    schema_match_exact_after_trim [of "\<lparr>uploaded_file = Some (Inr [(HText ''Category'', [Str ''Rent'']), (HText ''Budget'', [Num 1000]),
         (HText ''ACTUAL'', [Num 1200])]), parse_number = Map.empty,
        GROQ_AVAILABLE = True, GROQ_API_KEY = None,
        groq_chat = (\<lambda>key p. Inl ''timeout'')\<rparr>"
      "[(HText ''Category'', [Str ''Rent'']), (HText ''Budget'', [Num 1000]),
         (HText ''ACTUAL'', [Num 1200])]" "[''Category'', ''Budget'', ''ACTUAL'']"]
    schema_match_exact_after_trim [of "\<lparr>uploaded_file = Some (Inr [(HText ''Category'', [Str ''Rent'']), (HText '' Budget '', [Num 1000]),
         (HText ''Actual'', [Num 1200])]), parse_number = Map.empty,
        GROQ_AVAILABLE = True, GROQ_API_KEY = None,
        groq_chat = (\<lambda>key p. Inl ''timeout'')\<rparr>"
      "[(HText ''Category'', [Str ''Rent'']), (HText '' Budget '', [Num 1000]),
         (HText ''Actual'', [Num 1200])]" "[''Category'', '' Budget '', ''Actual'']"]
  by (simp add: required_cols_def strip_def is_space_def)



text \<open>
  Claim C8, as the code has it. On every run that reaches the export, the exported sheet
  is the displayed table written with its header row; its columns are the uploaded
  columns in their order (labels trimmed), followed by Variance and Variance % where the
  upload had no column of that name; and every uploaded column whose trimmed label is
  none of Budget, Actual, Variance and Variance % keeps its cells unmodified.
  Budget and Actual are normalized (claim C4); a column that the upload already calls
  Variance or Variance % does not pass through (claim C10).
\<close>

theorem extra_columns_pass_through:
  assumes "uploaded_file env = Some (Inr raw)"
    and "DownloadButton w f m \<in> set (main env)"
  shows "\<exists>cols out. strip_columns (map fst raw) = Inr cols \<and>
           Dataframe out \<in> set (main env) \<and> w = to_excel out \<and>
           header_row w = columns out \<and> body w = map snd out \<and>
           columns out =
             cols @ (if ''Variance'' \<in> set cols then [] else [''Variance'']) @
             (if ''Variance %'' \<in> set cols then [] else [''Variance %'']) \<and>
           (\<forall>i<length raw.
              cols ! i \<notin> {''Budget'', ''Actual'', ''Variance'', ''Variance %''} \<longrightarrow>
              body w ! i = snd (raw ! i))"
proof -
  from assms obtain cols out where s: "strip_columns (map fst raw) = Inr cols"
    and an: "analysis (parse_number env) (zip cols (map snd raw)) = Inr out"
    and w: "w = to_excel out" and shown: "Dataframe out \<in> set (main env)"
    by (rule main_download)
  let ?df = "zip cols (map snd raw)"
  have len: "length cols = length raw"
    using s by (simp add: strip_columns_length [of "map fst raw"])
  then have cols: "columns ?df = cols"
    by (simp add: columns_zip)
  have order: "columns out =
             cols @ (if ''Variance'' \<in> set cols then [] else [''Variance'']) @
             (if ''Variance %'' \<in> set cols then [] else [''Variance %''])"
    using analysis_column_order [OF an] by (simp only: cols)
  have kept: "body w ! i = snd (raw ! i)"
    if i: "i < length raw"
      and other: "cols ! i \<notin> {''Budget'', ''Actual'', ''Variance'', ''Variance %''}" for i
  proof -
    have idf: "i < length ?df"
      using i len by simp
    then have nth: "?df ! i = (cols ! i, snd (raw ! i))"
      using i by simp
    with other have "fst (?df ! i) \<notin> {''Budget'', ''Actual'', ''Variance'', ''Variance %''}"
      by simp
    with an idf have "out ! i = ?df ! i"
      by (rule analysis_keeps_others)
    moreover have "i < length out"
      using analysis_keeps_labels [OF an idf] by simp
    ultimately show ?thesis
      by (simp add: w to_excel_def nth)
  qed
  have "header_row w = columns out" "body w = map snd out"
    by (simp_all add: w to_excel_def)
  with s shown w order kept show ?thesis
    by (intro exI [of _ cols] exI [of _ out] conjI allI impI)
qed

text \<open>
  The claim as stated (every column beyond Category, Budget and Actual passes through
  unmodified) fails on a sheet that brings its own Variance column: the upload has 999
  in that column and the export has 200.
\<close>

theorem extra_columns_pass_through_counterexample:
  "download [(''Category'', [Str ''Rent'']), (''Budget'', [Num 1000]), (''Actual'', [Num 1200]),
        (''Variance'', [Num 200]), (''Note'', [Str ''paid'']), (''Variance %'', [Num 20])]
     \<in> set (main \<lparr>uploaded_file = Some (Inr [(HText ''Category'', [Str ''Rent'']), (HText ''Budget'', [Num 1000]),
         (HText ''Actual'', [Num 1200]), (HText ''Variance'', [Num 999]),
         (HText ''Note'', [Str ''paid''])]), parse_number = Map.empty,
        GROQ_AVAILABLE = True, GROQ_API_KEY = None,
        groq_chat = (\<lambda>key p. Inl ''timeout'')\<rparr>) \<and>
   snd ([(HText ''Category'', [Str ''Rent'']), (HText ''Budget'', [Num 1000]),
         (HText ''Actual'', [Num 1200]), (HText ''Variance'', [Num 999]),
         (HText ''Note'', [Str ''paid''])] ! 3) = [Num 999] \<and>
   body (to_excel [(''Category'', [Str ''Rent'']), (''Budget'', [Num 1000]), (''Actual'', [Num 1200]),
        (''Variance'', [Num 200]), (''Note'', [Str ''paid'']), (''Variance %'', [Num 20])]) ! 3 = [Num 200]"
  by (simp add: main_def preamble_def strip_def is_space_def schema_ok_def required_cols_def
        columns_def analysis_def getitem_def labelled_def setitem_def fillna_def variance_def
        series_sub_def series_div_def series_mul_def series_eq_def np_where_def render_def
        kpi_summary_def series_sum_def metrics_def insight_def to_excel_def)

text \<open>On the same sheet the Category and Note columns reach the export unmodified, and
  Variance % is appended after Note.\<close>

theorem extra_columns_pass_through_witness:
  "\<exists>cols out. strip_columns (map fst [(HText ''Category'', [Str ''Rent'']), (HText ''Budget'', [Num 1000]),
         (HText ''Actual'', [Num 1200]), (HText ''Variance'', [Num 999]),
         (HText ''Note'', [Str ''paid''])]) = Inr cols \<and>
     cols = [''Category'', ''Budget'', ''Actual'', ''Variance'', ''Note''] \<and>
     columns out = [''Category'', ''Budget'', ''Actual'', ''Variance'', ''Note'', ''Variance %''] \<and>
     header_row (to_excel [(''Category'', [Str ''Rent'']), (''Budget'', [Num 1000]), (''Actual'', [Num 1200]),
        (''Variance'', [Num 200]), (''Note'', [Str ''paid'']), (''Variance %'', [Num 20])]) = columns out \<and>
     body (to_excel [(''Category'', [Str ''Rent'']), (''Budget'', [Num 1000]), (''Actual'', [Num 1200]),
        (''Variance'', [Num 200]), (''Note'', [Str ''paid'']), (''Variance %'', [Num 20])]) ! 0 = [Str ''Rent''] \<and>
     body (to_excel [(''Category'', [Str ''Rent'']), (''Budget'', [Num 1000]), (''Actual'', [Num 1200]),
        (''Variance'', [Num 200]), (''Note'', [Str ''paid'']), (''Variance %'', [Num 20])]) ! 4 = [Str ''paid'']"
proof -
  have u: "uploaded_file \<lparr>uploaded_file = Some (Inr [(HText ''Category'', [Str ''Rent'']), (HText ''Budget'', [Num 1000]),
         (HText ''Actual'', [Num 1200]), (HText ''Variance'', [Num 999]),
         (HText ''Note'', [Str ''paid''])]), parse_number = Map.empty,
        GROQ_AVAILABLE = True, GROQ_API_KEY = None,
        groq_chat = (\<lambda>key p. Inl ''timeout'')\<rparr>
     = Some (Inr [(HText ''Category'', [Str ''Rent'']), (HText ''Budget'', [Num 1000]),
         (HText ''Actual'', [Num 1200]), (HText ''Variance'', [Num 999]),
         (HText ''Note'', [Str ''paid''])])"
    by simp
  have d: "DownloadButton (to_excel [(''Category'', [Str ''Rent'']), (''Budget'', [Num 1000]), (''Actual'', [Num 1200]),
        (''Variance'', [Num 200]), (''Note'', [Str ''paid'']), (''Variance %'', [Num 20])]) ''umkm_analysis.xlsx''
       ''application/vnd.openxmlformats-officedocument.spreadsheetml.sheet''
     \<in> set (main \<lparr>uploaded_file = Some (Inr [(HText ''Category'', [Str ''Rent'']), (HText ''Budget'', [Num 1000]),
         (HText ''Actual'', [Num 1200]), (HText ''Variance'', [Num 999]),
         (HText ''Note'', [Str ''paid''])]), parse_number = Map.empty,
        GROQ_AVAILABLE = True, GROQ_API_KEY = None,
        groq_chat = (\<lambda>key p. Inl ''timeout'')\<rparr>)"
    by (simp add: main_def preamble_def strip_def is_space_def schema_ok_def required_cols_def
        columns_def analysis_def getitem_def labelled_def setitem_def fillna_def variance_def
        series_sub_def series_div_def series_mul_def series_eq_def np_where_def render_def
        kpi_summary_def series_sum_def metrics_def insight_def download_def to_excel_def)
  have s: "strip_columns (map fst [(HText ''Category'', [Str ''Rent'']), (HText ''Budget'', [Num 1000]),
         (HText ''Actual'', [Num 1200]), (HText ''Variance'', [Num 999]),
         (HText ''Note'', [Str ''paid''])])
     = Inr [''Category'', ''Budget'', ''Actual'', ''Variance'', ''Note'']"
    by (simp add: strip_def is_space_def)
  from extra_columns_pass_through [OF u d] obtain cols out where
    c: "strip_columns (map fst [(HText ''Category'', [Str ''Rent'']), (HText ''Budget'', [Num 1000]),
         (HText ''Actual'', [Num 1200]), (HText ''Variance'', [Num 999]),
         (HText ''Note'', [Str ''paid''])]) = Inr cols"
    and o: "columns out =
             cols @ (if ''Variance'' \<in> set cols then [] else [''Variance'']) @
             (if ''Variance %'' \<in> set cols then [] else [''Variance %''])"
    and h: "header_row (to_excel [(''Category'', [Str ''Rent'']), (''Budget'', [Num 1000]), (''Actual'', [Num 1200]),
        (''Variance'', [Num 200]), (''Note'', [Str ''paid'']), (''Variance %'', [Num 20])]) = columns out"
    and k: "\<forall>i<length [(HText ''Category'', [Str ''Rent'']), (HText ''Budget'', [Num 1000]),
         (HText ''Actual'', [Num 1200]), (HText ''Variance'', [Num 999]),
         (HText ''Note'', [Str ''paid''])].
              cols ! i \<notin> {''Budget'', ''Actual'', ''Variance'', ''Variance %''} \<longrightarrow>
              body (to_excel [(''Category'', [Str ''Rent'']), (''Budget'', [Num 1000]), (''Actual'', [Num 1200]),
        (''Variance'', [Num 200]), (''Note'', [Str ''paid'']), (''Variance %'', [Num 20])]) ! i
                = snd ([(HText ''Category'', [Str ''Rent'']), (HText ''Budget'', [Num 1000]),
         (HText ''Actual'', [Num 1200]), (HText ''Variance'', [Num 999]),
         (HText ''Note'', [Str ''paid''])] ! i)"
    by blast
  from c s have cols: "cols = [''Category'', ''Budget'', ''Actual'', ''Variance'', ''Note'']"
    by simp
  from k [rule_format, of 0] have k0: "body (to_excel [(''Category'', [Str ''Rent'']), (''Budget'', [Num 1000]), (''Actual'', [Num 1200]),
        (''Variance'', [Num 200]), (''Note'', [Str ''paid'']), (''Variance %'', [Num 20])]) ! 0 = [Str ''Rent'']"
    by (simp add: cols)
  from k [rule_format, of 4] have k4: "body (to_excel [(''Category'', [Str ''Rent'']), (''Budget'', [Num 1000]), (''Actual'', [Num 1200]),
        (''Variance'', [Num 200]), (''Note'', [Str ''paid'']), (''Variance %'', [Num 20])]) ! 4 = [Str ''paid'']"
    by (simp add: cols)
  from o have o': "columns out = [''Category'', ''Budget'', ''Actual'', ''Variance'', ''Note'', ''Variance %'']"
    by (simp add: cols)
  from c cols o' h k0 k4 show ?thesis
    by (intro exI [of _ cols] exI [of _ out] conjI)
qed

text \<open>
  Claim C10. If the uploaded file already contains a column named Variance or
  Variance %, its values are overwritten by the derived computation rather than passed
  through: whenever lines 50-55 run through, every original column keeps its place and
  its label, and every column labelled Variance holds Actual minus Budget and every
  column labelled Variance % holds the derived percentage, whatever the upload had there.
\<close>

theorem derived_columns_overwrite:
  assumes "analysis parse df = Inr out"
  shows "\<exists>a b. getitem out ''Actual'' = Inr (Series (map Num a)) \<and>
           getitem out ''Budget'' = Inr (Series (map Num b)) \<and>
           (\<forall>i<length df. i < length out \<and> fst (out ! i) = fst (df ! i)) \<and>
           (\<forall>s. (''Variance'', s) \<in> set out \<longrightarrow> s = map Num (map2 (-) a b)) \<and>
           (\<forall>s. (''Variance %'', s) \<in> set out \<longrightarrow>
              s = map2 (\<lambda>x y. if y = 0 then NaN else Num ((x - y) / y * 100)) a b)"
proof -
  from assms obtain a b where a: "labelled out ''Actual'' = [map Num a]"
    and b: "labelled out ''Budget'' = [map Num b]"
    and v: "labelled out ''Variance'' = [map Num (map2 (-) a b)]"
    and w: "set (labelled out ''Variance %'') = {pct a b}"
    by (rule analysis_columns)
  have ga: "getitem out ''Actual'' = Inr (Series (map Num a))"
    using a by (rule getitem_single)
  have gb: "getitem out ''Budget'' = Inr (Series (map Num b))"
    using b by (rule getitem_single)
  have place: "i < length out \<and> fst (out ! i) = fst (df ! i)" if "i < length df" for i
    using assms that by (rule analysis_keeps_labels)
  have var: "s = map Num (map2 (-) a b)" if "(''Variance'', s) \<in> set out" for s
  proof -
    from that have "s \<in> set (labelled out ''Variance'')"
      by (simp only: labelled_mem)
    then show ?thesis
      unfolding v by simp
  qed
  have pc: "s = map2 (\<lambda>x y. if y = 0 then NaN else Num ((x - y) / y * 100)) a b"
    if "(''Variance %'', s) \<in> set out" for s
  proof -
    from that have "s \<in> set (labelled out ''Variance %'')"
      by (simp only: labelled_mem)
    then have "s = pct a b"
      unfolding w by (rule singletonD)
    then show ?thesis
      by (simp only: pct_def)
  qed
  have "getitem out ''Actual'' = Inr (Series (map Num a)) \<and>
        getitem out ''Budget'' = Inr (Series (map Num b)) \<and>
        (\<forall>i<length df. i < length out \<and> fst (out ! i) = fst (df ! i)) \<and>
        (\<forall>s. (''Variance'', s) \<in> set out \<longrightarrow> s = map Num (map2 (-) a b)) \<and>
        (\<forall>s. (''Variance %'', s) \<in> set out \<longrightarrow>
           s = map2 (\<lambda>x y. if y = 0 then NaN else Num ((x - y) / y * 100)) a b)"
    using ga gb place var pc by simp
  then show ?thesis
    by blast
qed

text \<open>A sheet that brings both columns (999 and the text n/a): they stay where they
  were and hold 200 and 20 afterwards.\<close>

theorem derived_columns_overwrite_witness:
  "analysis Map.empty
      [(''Category'', [Str ''Rent'']), (''Variance'', [Num 999]), (''Budget'', [Num 1000]),
       (''Variance %'', [Str ''n/a'']), (''Actual'', [Num 1200])]
     = Inr [(''Category'', [Str ''Rent'']), (''Variance'', [Num 200]), (''Budget'', [Num 1000]),
       (''Variance %'', [Num 20]), (''Actual'', [Num 1200])] \<and>
   (\<exists>a b. getitem 
      [(''Category'', [Str ''Rent'']), (''Variance'', [Num 200]), (''Budget'', [Num 1000]),
       (''Variance %'', [Num 20]), (''Actual'', [Num 1200])] ''Actual'' = Inr (Series (map Num a)) \<and>
           getitem 
      [(''Category'', [Str ''Rent'']), (''Variance'', [Num 200]), (''Budget'', [Num 1000]),
       (''Variance %'', [Num 20]), (''Actual'', [Num 1200])] ''Budget'' = Inr (Series (map Num b)) \<and>
           (\<forall>i<length 
      [(''Category'', [Str ''Rent'']), (''Variance'', [Num 999]), (''Budget'', [Num 1000]),
       (''Variance %'', [Str ''n/a'']), (''Actual'', [Num 1200])]. i < length 
      [(''Category'', [Str ''Rent'']), (''Variance'', [Num 200]), (''Budget'', [Num 1000]),
       (''Variance %'', [Num 20]), (''Actual'', [Num 1200])] \<and> fst (
      [(''Category'', [Str ''Rent'']), (''Variance'', [Num 200]), (''Budget'', [Num 1000]),
       (''Variance %'', [Num 20]), (''Actual'', [Num 1200])] ! i) = fst (
      [(''Category'', [Str ''Rent'']), (''Variance'', [Num 999]), (''Budget'', [Num 1000]),
       (''Variance %'', [Str ''n/a'']), (''Actual'', [Num 1200])] ! i)) \<and>
           (\<forall>s. (''Variance'', s) \<in> set 
      [(''Category'', [Str ''Rent'']), (''Variance'', [Num 200]), (''Budget'', [Num 1000]),
       (''Variance %'', [Num 20]), (''Actual'', [Num 1200])] \<longrightarrow> s = map Num (map2 (-) a b)) \<and>
           (\<forall>s. (''Variance %'', s) \<in> set 
      [(''Category'', [Str ''Rent'']), (''Variance'', [Num 200]), (''Budget'', [Num 1000]),
       (''Variance %'', [Num 20]), (''Actual'', [Num 1200])] \<longrightarrow>
              s = map2 (\<lambda>x y. if y = 0 then NaN else Num ((x - y) / y * 100)) a b))"
proof -
  have h: "analysis Map.empty
      [(''Category'', [Str ''Rent'']), (''Variance'', [Num 999]), (''Budget'', [Num 1000]),
       (''Variance %'', [Str ''n/a'']), (''Actual'', [Num 1200])]
     = Inr [(''Category'', [Str ''Rent'']), (''Variance'', [Num 200]), (''Budget'', [Num 1000]),
       (''Variance %'', [Num 20]), (''Actual'', [Num 1200])]"
    by (simp add: analysis_def getitem_def labelled_def setitem_def columns_def fillna_def
        variance_def series_sub_def series_div_def series_mul_def series_eq_def np_where_def)
  show ?thesis
    using h derived_columns_overwrite [OF h] by (rule conjI)
qed

end
